theory Spec2Isabelle
  imports Complex_Main
begin

section \<open>Server side: items, requests and the clock\<close>

text \<open>
  A \<^verbatim>\<open>DateTimeOffset\<close> is compared, tested for equality and subtracted through its UTC
  instant, so it is modelled by that instant: an integer number of ticks (100 ns).
  \<^verbatim>\<open>DateTimeOffset?\<close> is an option.
\<close>

type_synonym DateTimeOffset = int

text \<open>
  \<^verbatim>\<open>TimeSpan.TotalHours\<close> is the tick count divided by the ticks of one hour. The
  source compares it with 1 only; the quotient is read here as an exact number, which
  agrees with the double the program computes on that comparison (36000000000 is a
  double, conversion of the tick count is monotone and exact below 2^53).
\<close>

definition TicksPerHour :: int where
  "TicksPerHour = 36000000000"

definition TotalHours :: "int \<Rightarrow> real" where
  "TotalHours ticks = real_of_int ticks / real_of_int TicksPerHour"

text \<open>
  Modelled from the spec: the declaration of the class \<^verbatim>\<open>TodoItem\<close> is not among the
  sources; its fields are those of the data model (section 3) under the names the
  repository and the endpoints use. The field \<^verbatim>\<open>Id\<close> is written \<open>Id_item\<close>.
\<close>

record TodoItem =
  Id_item :: string
  ListId :: string
  Name :: string
  Description :: "string option"
  State :: string
  DueDate :: "DateTimeOffset option"
  CompletedDate :: "DateTimeOffset option"
  CreatedDate :: DateTimeOffset
  UpdatedDate :: "DateTimeOffset option"

text \<open>The request body: \<^verbatim>\<open>record CreateUpdateTodoItem(name, state, dueDate, completedDate, description)\<close>.\<close>

record CreateUpdateTodoItem =
  name :: string
  state :: string
  dueDate :: "DateTimeOffset option"
  completedDate :: "DateTimeOffset option"
  description :: "string option"

section \<open>The two update transitions\<close>

text \<open>
  The body of the endpoint \<^verbatim>\<open>UpdateListItem\<close> between the lookup and the write. The
  endpoint reads \<^verbatim>\<open>DateTimeOffset.UtcNow\<close> up to three times: for \<^verbatim>\<open>UpdatedDate\<close>
  (\<open>t_upd\<close>), as \<^verbatim>\<open>now\<close> inside the due-date check (\<open>now\<close>), and as the default
  completion date (\<open>t_done\<close>). Each reading is a parameter.
\<close>

text \<open>
  \<open>reopen_check\<close> is the condition under which the endpoint moves a done item back to
  todo: the outer test of the due dates and the inner test against \<^verbatim>\<open>now\<close> and the
  one-hour floor.
\<close>

definition reopen_check :: "DateTimeOffset \<Rightarrow> string \<Rightarrow> DateTimeOffset option \<Rightarrow> CreateUpdateTodoItem \<Rightarrow> bool" where
  "reopen_check now oldState oldDueDate item =
     (case (dueDate item, oldDueDate) of
        (Some newDue, Some oldDue) \<Rightarrow>
          oldState = ''done'' \<and> state item = ''done'' \<and> newDue \<noteq> oldDue \<and>
          (let timeDifference = newDue - oldDue
           in newDue > now \<and> TotalHours timeDifference \<ge> 1)
      | _ \<Rightarrow> False)"

definition UpdateListItem_fields ::
  "DateTimeOffset \<Rightarrow> DateTimeOffset \<Rightarrow> DateTimeOffset \<Rightarrow> TodoItem \<Rightarrow> CreateUpdateTodoItem \<Rightarrow> TodoItem" where
  "UpdateListItem_fields t_upd now t_done existingItem item =
     (let oldState = State existingItem;
          oldDueDate = DueDate existingItem;
          e1 = existingItem\<lparr>Name := name item, Description := description item,
                 DueDate := dueDate item, State := state item, UpdatedDate := Some t_upd\<rparr>;
          e2 = (if reopen_check now oldState oldDueDate item
                then e1\<lparr>State := ''todo'', CompletedDate := None\<rparr>
                else e1)
      in if state item = ''done'' \<and> oldState \<noteq> ''done''
         then e2\<lparr>State := ''done'',
                 CompletedDate := Some (case completedDate item of Some c \<Rightarrow> c | None \<Rightarrow> t_done)\<rparr>
         else if state item \<noteq> ''done''
         then e2\<lparr>CompletedDate := None\<rparr>
         else e2\<lparr>CompletedDate := completedDate item\<rparr>)"

text \<open>
  The field updates of the repository method \<^verbatim>\<open>UpdateListItemWithStateLogic\<close>, which
  reads the clock once.
\<close>

definition UpdateListItemWithStateLogic_fields ::
  "DateTimeOffset \<Rightarrow> TodoItem \<Rightarrow> string \<Rightarrow> DateTimeOffset option \<Rightarrow> DateTimeOffset option \<Rightarrow> TodoItem" where
  "UpdateListItemWithStateLogic_fields now existingItem newState newDueDate newCompletedDate =
     (let oldState = State existingItem;
          e1 = existingItem\<lparr>State := newState, DueDate := newDueDate, UpdatedDate := Some now\<rparr>
      in if oldState = ''done'' \<and> newState = ''done'' \<and>
            (case newDueDate of Some d \<Rightarrow> d > now | None \<Rightarrow> False)
         then e1\<lparr>State := ''todo'', CompletedDate := None\<rparr>
         else if newState = ''done'' \<and> oldState \<noteq> ''done''
         then e1\<lparr>State := ''done'',
                 CompletedDate := Some (case newCompletedDate of Some c \<Rightarrow> c | None \<Rightarrow> now)\<rparr>
         else if newState \<noteq> ''done''
         then e1\<lparr>CompletedDate := None\<rparr>
         else e1\<lparr>CompletedDate := newCompletedDate\<rparr>)"

section \<open>The item container and the repository\<close>

text \<open>
  The container \<^verbatim>\<open>TodoItem\<close> of the document store holds each item under its own id,
  which is also its partition key. The container is a library object; its point
  operations are modelled by their contract: reading, replacing or deleting an id that is
  not stored throws a \<^verbatim>\<open>CosmosException\<close> with status 404, otherwise the operation
  succeeds. A response that may be \<^verbatim>\<open>null\<close> is an option.
\<close>

datatype CosmosException = CosmosNotFound

type_synonym Container = "string \<rightharpoonup> TodoItem"

definition ReadItemAsync :: "Container \<Rightarrow> string \<Rightarrow> CosmosException + TodoItem option" where
  "ReadItemAsync container key =
     (case container key of None \<Rightarrow> Inl CosmosNotFound | Some doc \<Rightarrow> Inr (Some doc))"

definition DeleteItemAsync :: "Container \<Rightarrow> string \<Rightarrow> CosmosException + Container" where
  "DeleteItemAsync container key =
     (case container key of None \<Rightarrow> Inl CosmosNotFound | Some _ \<Rightarrow> Inr (container(key := None)))"

definition ReplaceItemAsync :: "Container \<Rightarrow> TodoItem \<Rightarrow> string \<Rightarrow> CosmosException + Container" where
  "ReplaceItemAsync container doc key =
     (case container key of None \<Rightarrow> Inl CosmosNotFound | Some _ \<Rightarrow> Inr (container(key \<mapsto> doc)))"

text \<open>
  \<^verbatim>\<open>ListsRepository.GetListItemAsync\<close>: the item is read by its id alone; the test
  \<^verbatim>\<open>response?.Resource.ListId != listId\<close> then turns an item of another list (and a
  null response) into \<^verbatim>\<open>null\<close>.
\<close>

definition GetListItemAsync :: "Container \<Rightarrow> string \<Rightarrow> string \<Rightarrow> CosmosException + TodoItem option" where
  "GetListItemAsync itemsCollection listId itemId =
     (case ReadItemAsync itemsCollection itemId of
        Inl e \<Rightarrow> Inl e
      | Inr response \<Rightarrow>
          if map_option ListId response \<noteq> Some listId then Inr None else Inr response)"

definition DeleteListItemAsync :: "Container \<Rightarrow> string \<Rightarrow> string \<Rightarrow> CosmosException + Container" where
  "DeleteListItemAsync itemsCollection listId itemId = DeleteItemAsync itemsCollection itemId"

definition UpdateListItemAsync :: "Container \<Rightarrow> TodoItem \<Rightarrow> CosmosException + Container" where
  "UpdateListItemAsync itemsCollection existingItem =
     ReplaceItemAsync itemsCollection existingItem (Id_item existingItem)"

definition UpdateListItemWithStateLogic ::
  "DateTimeOffset \<Rightarrow> Container \<Rightarrow> TodoItem \<Rightarrow> string \<Rightarrow> DateTimeOffset option \<Rightarrow>
     DateTimeOffset option \<Rightarrow> CosmosException + Container" where
  "UpdateListItemWithStateLogic now itemsCollection existingItem newState newDueDate newCompletedDate =
     (let existingItem' =
            UpdateListItemWithStateLogic_fields now existingItem newState newDueDate newCompletedDate
      in ReplaceItemAsync itemsCollection existingItem' (Id_item existingItem'))"

section \<open>The endpoints for one item\<close>

text \<open>
  An endpoint returns an \<^verbatim>\<open>IResult\<close> or lets the store's exception escape, and leaves
  the container in a new state. The repository is passed as its item container, the only
  part of it these endpoints touch.
\<close>

datatype IResult = NotFound | Ok TodoItem | NoContent

definition DeleteListItem :: "Container \<Rightarrow> string \<Rightarrow> string \<Rightarrow> (CosmosException + IResult) \<times> Container" where
  "DeleteListItem repository listId itemId =
     (case GetListItemAsync repository listId itemId of
        Inl e \<Rightarrow> (Inl e, repository)
      | Inr None \<Rightarrow> (Inr NotFound, repository)
      | Inr (Some _) \<Rightarrow>
          (case DeleteListItemAsync repository listId itemId of
             Inl e \<Rightarrow> (Inl e, repository)
           | Inr repository' \<Rightarrow> (Inr NoContent, repository')))"

definition UpdateListItem ::
  "DateTimeOffset \<Rightarrow> DateTimeOffset \<Rightarrow> DateTimeOffset \<Rightarrow> Container \<Rightarrow> string \<Rightarrow> string \<Rightarrow>
     CreateUpdateTodoItem \<Rightarrow> (CosmosException + IResult) \<times> Container" where
  "UpdateListItem t_upd now t_done repository listId itemId item =
     (case GetListItemAsync repository listId itemId of
        Inl e \<Rightarrow> (Inl e, repository)
      | Inr None \<Rightarrow> (Inr NotFound, repository)
      | Inr (Some existingItem) \<Rightarrow>
          (let existingItem' = UpdateListItem_fields t_upd now t_done existingItem item
           in case UpdateListItemAsync repository existingItem' of
                Inl e \<Rightarrow> (Inl e, repository)
              | Inr repository' \<Rightarrow> (Inr (Ok existingItem'), repository')))"

section \<open>Paginated queries\<close>

text \<open>
  A query is modelled by the sequence of its results. \<^verbatim>\<open>Skip\<close> and \<^verbatim>\<open>Take\<close> are the
  LINQ operators (a count of zero or less skips nothing, respectively takes nothing). A
  feed iterator is the list of the pages still to be read; how the store cuts a result
  into pages is a parameter of \<open>ToListAsync\<close>.
\<close>

definition Skip :: "'a list \<Rightarrow> int \<Rightarrow> 'a list" where
  "Skip queryable count = drop (nat count) queryable"

definition Take :: "'a list \<Rightarrow> int \<Rightarrow> 'a list" where
  "Take queryable count = take (nat count) queryable"

text \<open>The loops of \<^verbatim>\<open>ToListAsync\<close>: every page is read, every item of a page is added.\<close>

fun add_page :: "'a list \<Rightarrow> 'a list \<Rightarrow> 'a list" where
  "add_page items [] = items"
| "add_page items (item # page) = add_page (items @ [item]) page"

fun read_all :: "'a list list \<Rightarrow> 'a list \<Rightarrow> 'a list" where
  "read_all [] items = items"
| "read_all (page # iterator) items = read_all iterator (add_page items page)"

definition ToListAsync :: "('a list \<Rightarrow> 'a list list) \<Rightarrow> 'a list \<Rightarrow> int option \<Rightarrow> int option \<Rightarrow> 'a list" where
  "ToListAsync ToFeedIterator queryable skip batchSize =
     (let queryable1 = (case skip of Some s \<Rightarrow> Skip queryable s | None \<Rightarrow> queryable);
          queryable2 = (case batchSize of Some b \<Rightarrow> Take queryable1 b | None \<Rightarrow> queryable1)
      in read_all (ToFeedIterator queryable2) [])"

text \<open>
  \<^verbatim>\<open>GetListItemsAsync\<close>: the items of one list, paginated. \<open>stored\<close> lists the
  container's items in the order in which the store enumerates them.
\<close>

definition GetListItemsAsync ::
  "(TodoItem list \<Rightarrow> TodoItem list list) \<Rightarrow> TodoItem list \<Rightarrow> string \<Rightarrow> int option \<Rightarrow> int option \<Rightarrow> TodoItem list" where
  "GetListItemsAsync ToFeedIterator stored listId skip batchSize =
     ToListAsync ToFeedIterator (filter (\<lambda>i. ListId i = listId) stored) skip batchSize"

section \<open>Web client: the detail pane's save\<close>

text \<open>
  A JavaScript \<^verbatim>\<open>Date\<close> is modelled by its time value, an integer number of
  milliseconds; an optional field is an option.
\<close>

type_synonym Date = int

text \<open>
  Modelled from the spec: the module \<^verbatim>\<open>../models\<close> with the enum \<^verbatim>\<open>TodoItemState\<close>
  and the interface \<^verbatim>\<open>TodoItem\<close> is not among the sources; the three states and the
  fields are those of the data model (section 3) under the names the components use. The
  fields carry the suffix \<open>_ts\<close>.
\<close>

datatype TodoItemState = Todo | InProgress | Done

record TodoItem_ts =
  id_ts :: "string option"
  listId_ts :: string
  name_ts :: string
  description_ts :: "string option"
  state_ts :: TodoItemState
  dueDate_ts :: "Date option"
  completedDate_ts :: "Date option"
  createdDate_ts :: "Date option"
  updatedDate_ts :: "Date option"

text \<open>The state hooks of \<^verbatim>\<open>TodoItemDetailPane\<close> that \<^verbatim>\<open>saveTodoItem\<close> reads.\<close>

record pane_state =
  name_s :: string
  description_s :: "string option"
  dueDate_s :: "Date option"
  dueTime_s :: string
  state_s :: TodoItemState

text \<open>
  \<^verbatim>\<open>saveTodoItem\<close> returns the item it passes to \<^verbatim>\<open>props.onEdit\<close>, or nothing when it
  returns early (no item, or an item without id). \<open>combine\<close> stands for the
  locale-dependent merge of the picked date with the time field; \<open>now1\<close> and \<open>now2\<close>
  are the two readings \<^verbatim>\<open>new Date()\<close>.
\<close>

definition saveTodoItem ::
  "(Date \<Rightarrow> string \<Rightarrow> Date) \<Rightarrow> Date \<Rightarrow> Date \<Rightarrow> TodoItem_ts option \<Rightarrow> pane_state \<Rightarrow> TodoItem_ts option" where
  "saveTodoItem combine now1 now2 props_item st =
     (case props_item of
        None \<Rightarrow> None
      | Some item \<Rightarrow>
          (case id_ts item of
             None \<Rightarrow> None
           | Some i \<Rightarrow>
               if i = [] then None
               else
                 let combinedDueDate =
                       (case dueDate_s st of
                          Some d \<Rightarrow> if dueTime_s st \<noteq> [] then Some (combine d (dueTime_s st)) else Some d
                        | None \<Rightarrow> None)
                 in Some \<lparr>id_ts = Some i,
                          listId_ts = listId_ts item,
                          name_ts = name_s st,
                          description_ts = description_s st,
                          state_ts = state_s st,
                          dueDate_ts = combinedDueDate,
                          completedDate_ts =
                            (if state_s st = Done
                             then Some (case completedDate_ts item of Some c \<Rightarrow> c | None \<Rightarrow> now1)
                             else None),
                          createdDate_ts = createdDate_ts item,
                          updatedDate_ts = Some now2\<rparr>))"

section \<open>Web client: the countdown column\<close>

text \<open>The fields of \<^verbatim>\<open>LocationData\<close> and \<^verbatim>\<open>TodoDisplayItem\<close> that the countdown reads.\<close>

record LocationData =
  timezone :: string
  city :: "string option"

record TodoDisplayItem =
  state_d :: TodoItemState
  originalDueDate :: "Date option"

text \<open>What the countdown cell shows: its text and the two style attributes that vary.\<close>

record countdown_cell =
  countdownText :: string
  countdownColor :: string
  fontWeight :: string

text \<open>An integer in a template literal is written in decimal.\<close>

fun string_of_nat :: "nat \<Rightarrow> string" where
  "string_of_nat n =
     (if n < 10 then [''0123456789'' ! n]
      else string_of_nat (n div 10) @ [''0123456789'' ! (n mod 10)])"

declare string_of_nat.simps [simp del]

definition string_of_int :: "int \<Rightarrow> string" where
  "string_of_int i = (if i < 0 then ''-'' @ string_of_nat (nat (- i)) else string_of_nat (nat i))"

text \<open>
  The functions of date-fns, by their contract: \<^verbatim>\<open>isPast\<close> compares the time value with
  \<^verbatim>\<open>Date.now()\<close> (\<open>dateNow\<close>) strictly; the differences in seconds, minutes and hours
  divide the difference of the time values and truncate towards zero. The operator
  \<^verbatim>\<open>%\<close> takes the sign of its left operand. The integers agree with the doubles of
  the program as long as the difference of two time values stays below 2^53
  milliseconds.
\<close>

definition isPast :: "Date \<Rightarrow> Date \<Rightarrow> bool" where
  "isPast dateNow date = (date < dateNow)"

definition trunc_quot :: "int \<Rightarrow> int \<Rightarrow> int" where
  "trunc_quot a b = sgn a * (\<bar>a\<bar> div b)"

definition js_rem :: "int \<Rightarrow> int \<Rightarrow> int" where
  "js_rem a b = sgn a * (\<bar>a\<bar> mod b)"

definition differenceInSeconds :: "Date \<Rightarrow> Date \<Rightarrow> int" where
  "differenceInSeconds laterDate earlierDate = trunc_quot (laterDate - earlierDate) 1000"

definition differenceInMinutes :: "Date \<Rightarrow> Date \<Rightarrow> int" where
  "differenceInMinutes laterDate earlierDate = trunc_quot (laterDate - earlierDate) 60000"

definition differenceInHours :: "Date \<Rightarrow> Date \<Rightarrow> int" where
  "differenceInHours laterDate earlierDate = trunc_quot (laterDate - earlierDate) 3600000"

definition userTimezone_of :: "LocationData option \<Rightarrow> string \<Rightarrow> string" where
  "userTimezone_of userLocation currentTimezone =
     (case userLocation of
        Some l \<Rightarrow> if timezone l \<noteq> [] then timezone l else currentTimezone
      | None \<Rightarrow> currentTimezone)"

definition locationInfo_of :: "LocationData option \<Rightarrow> string" where
  "locationInfo_of userLocation =
     (case userLocation of
        Some l \<Rightarrow> (case city l of Some c \<Rightarrow> if c \<noteq> [] then '' ('' @ c @ '')'' else [] | None \<Rightarrow> [])
      | None \<Rightarrow> [])"

text \<open>
  The case \<^verbatim>\<open>"countdown"\<close> of \<^verbatim>\<open>renderItemColumn\<close>. Parameters: the time-zone
  conversion \<open>toZonedTime\<close> of date-fns-tz and the calendar-aware \<open>differenceInDays\<close>
  (both depend on the time-zone database), the location state, the time zone reported
  by the location service, the reading \<open>now\<close> of \<^verbatim>\<open>new Date()\<close> and the reading
  \<open>dateNow\<close> of \<^verbatim>\<open>Date.now()\<close> inside \<^verbatim>\<open>isPast\<close>.
\<close>

definition renderItemColumn_countdown ::
  "(Date \<Rightarrow> string \<Rightarrow> Date) \<Rightarrow> (Date \<Rightarrow> Date \<Rightarrow> int) \<Rightarrow> LocationData option \<Rightarrow> string \<Rightarrow>
     Date \<Rightarrow> Date \<Rightarrow> TodoDisplayItem \<Rightarrow> countdown_cell" where
  "renderItemColumn_countdown toZonedTime differenceInDays userLocation currentTimezone now dateNow item =
     (if state_d item = Done
      then \<lparr>countdownText = ''Complete'', countdownColor = ''#107c10'', fontWeight = ''bold''\<rparr>
      else
        (case originalDueDate item of
           None \<Rightarrow> \<lparr>countdownText = ''N/A'', countdownColor = ''#666'', fontWeight = ''600''\<rparr>
         | Some due \<Rightarrow>
             let userTimezone = userTimezone_of userLocation currentTimezone;
                 zonedNow = toZonedTime now userTimezone;
                 zonedDue = toZonedTime due userTimezone
             in if isPast dateNow zonedDue
                then \<lparr>countdownText = ''Due!'', countdownColor = ''#d13438'', fontWeight = ''600''\<rparr>
                else
                  let totalMinutes = differenceInMinutes zonedDue zonedNow;
                      days = differenceInDays zonedDue zonedNow;
                      hours = js_rem (differenceInHours zonedDue zonedNow) 24;
                      minutes = js_rem (differenceInMinutes zonedDue zonedNow) 60;
                      seconds = js_rem (differenceInSeconds zonedDue zonedNow) 60;
                      color =
                        (if totalMinutes \<le> 60 then ''#d13438''
                         else if totalMinutes \<le> 360 then ''#ff8c00''
                         else if totalMinutes \<le> 1440 then ''#ffd700''
                         else if totalMinutes \<le> 4320 then ''#90ee90''
                         else ''#107c10'');
                      locationInfo = locationInfo_of userLocation
                  in \<lparr>countdownText =
                        string_of_int days @ ''d '' @ string_of_int hours @ ''h '' @
                        string_of_int minutes @ ''m '' @ string_of_int seconds @ ''s'' @ locationInfo,
                      countdownColor = color,
                      fontWeight = (if totalMinutes \<le> 360 then ''600'' else ''400'')\<rparr>))"

section \<open>Properties of the transitions\<close>

lemma TotalHours_ge_1_iff: "TotalHours d \<ge> 1 \<longleftrightarrow> d \<ge> 36000000000"
  by (simp add: TotalHours_def TicksPerHour_def le_divide_eq)

lemma reopen_check_needs_done: "reopen_check now oldState oldDueDate item \<Longrightarrow> oldState = ''done'' \<and> state item = ''done''"
  by (auto simp: reopen_check_def split: option.splits)

lemma reopen_check_no_prior_due: "\<not> reopen_check now oldState None item"
  by (simp add: reopen_check_def split: option.splits)

text \<open>
  C8. On the endpoint's path a done item stored without a due date never reopens: with
  the existing state done, no prior due date and the requested state done, the result
  keeps state done whatever due date is requested.
\<close>

theorem done_without_prior_due_stays_done:
  assumes "State existingItem = ''done''" and "DueDate existingItem = None"
    and "state item = ''done''"
  shows "State (UpdateListItem_fields t_upd now t_done existingItem item) = ''done''"
  using assms by (simp add: UpdateListItem_fields_def Let_def reopen_check_no_prior_due)

theorem done_without_prior_due_stays_done_witness:
  "State (UpdateListItem_fields 1000 1000 1000
     \<lparr>Id_item = ''i1'', ListId = ''A'', Name = ''n'', Description = None, State = ''done'',
      DueDate = None, CompletedDate = Some 500, CreatedDate = 100, UpdatedDate = None\<rparr>
     \<lparr>name = ''n'', state = ''done'', dueDate = Some 72000000001000,
      completedDate = Some 500, description = None\<rparr>) = ''done''"
  by (rule done_without_prior_due_stays_done) simp_all

text \<open>
  C4. Completion rule: when the existing state is not done and the requested state is
  done, the reopen test does not fire and the result has state done, the requested
  completion date when one is supplied and otherwise the clock reading, and the
  requested due date. Both update paths behave so.
\<close>

theorem completion_rule:
  assumes "State existingItem \<noteq> ''done''" and "state item = ''done''"
  shows "\<not> reopen_check now (State existingItem) (DueDate existingItem) item
      \<and> State (UpdateListItem_fields t_upd now t_done existingItem item) = ''done''
      \<and> CompletedDate (UpdateListItem_fields t_upd now t_done existingItem item)
          = Some (case completedDate item of Some c \<Rightarrow> c | None \<Rightarrow> t_done)
      \<and> DueDate (UpdateListItem_fields t_upd now t_done existingItem item) = dueDate item
      \<and> State (UpdateListItemWithStateLogic_fields now existingItem (state item)
            (dueDate item) (completedDate item)) = ''done''
      \<and> CompletedDate (UpdateListItemWithStateLogic_fields now existingItem (state item)
            (dueDate item) (completedDate item))
          = Some (case completedDate item of Some c \<Rightarrow> c | None \<Rightarrow> now)
      \<and> DueDate (UpdateListItemWithStateLogic_fields now existingItem (state item)
            (dueDate item) (completedDate item)) = dueDate item"
proof -
  have no_reopen: "\<not> reopen_check now (State existingItem) (DueDate existingItem) item"
    using assms(1) reopen_check_needs_done by blast
  have endpoint: "UpdateListItem_fields t_upd now t_done existingItem item
      = existingItem\<lparr>Name := name item, Description := description item,
          DueDate := dueDate item, State := ''done'', UpdatedDate := Some t_upd,
          CompletedDate := Some (case completedDate item of Some c \<Rightarrow> c | None \<Rightarrow> t_done)\<rparr>"
    using assms no_reopen by (simp add: UpdateListItem_fields_def Let_def)
  have repo: "UpdateListItemWithStateLogic_fields now existingItem (state item)
        (dueDate item) (completedDate item)
      = existingItem\<lparr>State := ''done'', DueDate := dueDate item, UpdatedDate := Some now,
          CompletedDate := Some (case completedDate item of Some c \<Rightarrow> c | None \<Rightarrow> now)\<rparr>"
    using assms by (simp add: UpdateListItemWithStateLogic_fields_def Let_def)
  show ?thesis
    unfolding endpoint repo using no_reopen by simp
qed

theorem completion_rule_witness:
  "State (UpdateListItem_fields 1000 1001 1002
     \<lparr>Id_item = ''i1'', ListId = ''A'', Name = ''n'', Description = None,
      State = ''inprogress'', DueDate = Some 700, CompletedDate = None, CreatedDate = 100,
      UpdatedDate = None\<rparr>
     \<lparr>name = ''n'', state = ''done'', dueDate = Some 700, completedDate = None,
      description = None\<rparr>) = ''done''
   \<and> CompletedDate (UpdateListItem_fields 1000 1001 1002
     \<lparr>Id_item = ''i1'', ListId = ''A'', Name = ''n'', Description = None,
      State = ''inprogress'', DueDate = Some 700, CompletedDate = None, CreatedDate = 100,
      UpdatedDate = None\<rparr>
     \<lparr>name = ''n'', state = ''done'', dueDate = Some 700, completedDate = None,
      description = None\<rparr>) = Some 1002
   \<and> DueDate (UpdateListItem_fields 1000 1001 1002
     \<lparr>Id_item = ''i1'', ListId = ''A'', Name = ''n'', Description = None,
      State = ''inprogress'', DueDate = Some 700, CompletedDate = None, CreatedDate = 100,
      UpdatedDate = None\<rparr>
     \<lparr>name = ''n'', state = ''done'', dueDate = Some 700, completedDate = None,
      description = None\<rparr>) = Some 700"
  using completion_rule [of
     "\<lparr>Id_item = ''i1'', ListId = ''A'', Name = ''n'', Description = None,
      State = ''inprogress'', DueDate = Some 700, CompletedDate = None, CreatedDate = 100,
      UpdatedDate = None\<rparr>"
     "\<lparr>name = ''n'', state = ''done'', dueDate = Some 700, completedDate = None,
      description = None\<rparr>" 1001 1000 1002]
  by simp

lemma reopen_paths_differ_example:
  "State (UpdateListItemWithStateLogic_fields 1000
     \<lparr>Id_item = ''i1'', ListId = ''A'', Name = ''n'', Description = None, State = ''done'',
      DueDate = Some 5000, CompletedDate = Some 500, CreatedDate = 100, UpdatedDate = None\<rparr>
     ''done'' (Some 5000) (Some 500)) = ''todo''
   \<and> State (UpdateListItem_fields 1000 1000 1000
     \<lparr>Id_item = ''i1'', ListId = ''A'', Name = ''n'', Description = None, State = ''done'',
      DueDate = Some 5000, CompletedDate = Some 500, CreatedDate = 100, UpdatedDate = None\<rparr>
     \<lparr>name = ''n'', state = ''done'', dueDate = Some 5000, completedDate = Some 500,
      description = None\<rparr>) = ''done''"
  by (simp add: UpdateListItemWithStateLogic_fields_def UpdateListItem_fields_def
      reopen_check_def Let_def)

text \<open>
  C2. The two update paths reopen under rules of different strictness. On the path of
  \<^verbatim>\<open>UpdateListItemWithStateLogic\<close>, an item in state done with requested state done is
  moved to todo with no completion date whenever the requested due date is strictly after
  now; nothing is asked of the prior due date. Hence the two paths disagree on some
  input: a done item saved as done with its due date unchanged and in the future.
\<close>

theorem reopen_rule_of_state_logic_is_weaker:
  assumes "State existingItem = ''done''" and "now < d"
  shows "State (UpdateListItemWithStateLogic_fields now existingItem ''done'' (Some d) c) = ''todo''
      \<and> CompletedDate (UpdateListItemWithStateLogic_fields now existingItem ''done'' (Some d) c) = None
      \<and> (\<exists>e item t. State e = ''done'' \<and> state item = ''done'' \<and> dueDate item = DueDate e
             \<and> name item = Name e \<and> description item = Description e
             \<and> State (UpdateListItemWithStateLogic_fields t e (state item) (dueDate item)
                    (completedDate item))
               \<noteq> State (UpdateListItem_fields t t t e item))"
proof -
  have reopened: "UpdateListItemWithStateLogic_fields now existingItem ''done'' (Some d) c
      = existingItem\<lparr>State := ''todo'', DueDate := Some d, UpdatedDate := Some now,
          CompletedDate := None\<rparr>"
    using assms by (simp add: UpdateListItemWithStateLogic_fields_def Let_def)
  let ?e = "\<lparr>Id_item = ''i1'', ListId = ''A'', Name = ''n'', Description = None,
      State = ''done'', DueDate = Some 5000, CompletedDate = Some 500, CreatedDate = 100,
      UpdatedDate = None\<rparr>"
  let ?item = "\<lparr>name = ''n'', state = ''done'', dueDate = Some 5000,
      completedDate = Some 500, description = None\<rparr>"
  have "State (UpdateListItemWithStateLogic_fields 1000 ?e (state ?item) (dueDate ?item)
          (completedDate ?item))
        \<noteq> State (UpdateListItem_fields 1000 1000 1000 ?e ?item)"
    using reopen_paths_differ_example by simp
  then have differ: "\<exists>e item t. State e = ''done'' \<and> state item = ''done''
      \<and> dueDate item = DueDate e \<and> name item = Name e \<and> description item = Description e
      \<and> State (UpdateListItemWithStateLogic_fields t e (state item) (dueDate item)
             (completedDate item))
        \<noteq> State (UpdateListItem_fields t t t e item)"
    by (intro exI [of _ ?e] exI [of _ ?item] exI [of _ 1000]) simp
  show ?thesis
    unfolding reopened using differ by simp
qed

theorem reopen_rule_of_state_logic_is_weaker_witness:
  "State (UpdateListItemWithStateLogic_fields 1000
     \<lparr>Id_item = ''i1'', ListId = ''A'', Name = ''n'', Description = None, State = ''done'',
      DueDate = Some 5000, CompletedDate = Some 500, CreatedDate = 100, UpdatedDate = None\<rparr>
     ''done'' (Some 5000) (Some 500)) = ''todo''
   \<and> CompletedDate (UpdateListItemWithStateLogic_fields 1000
     \<lparr>Id_item = ''i1'', ListId = ''A'', Name = ''n'', Description = None, State = ''done'',
      DueDate = Some 5000, CompletedDate = Some 500, CreatedDate = 100, UpdatedDate = None\<rparr>
     ''done'' (Some 5000) (Some 500)) = None"
  using reopen_rule_of_state_logic_is_weaker [of
     "\<lparr>Id_item = ''i1'', ListId = ''A'', Name = ''n'', Description = None, State = ''done'',
      DueDate = Some 5000, CompletedDate = Some 500, CreatedDate = 100, UpdatedDate = None\<rparr>"
     1000 5000 "Some 500"]
  by simp

text \<open>
  C3. On the endpoint's path the reopen rule sets the state to todo, but the completion
  date it clears is assigned again by the branch that follows: the second
  \<^verbatim>\<open>if\<close> chain is not joined to the first by \<^verbatim>\<open>else\<close>, and its last branch stores the
  requested completion date. Here a done item due at hour 100 is saved as done with the
  due date at hour 102, at hour 101, with the completion date it already had: the result
  is in state todo and still carries that completion date.
\<close>

theorem endpoint_reopen_keeps_requested_completedDate:
  "State (UpdateListItem_fields 3636000000000 3636000000000 3636000000000
     \<lparr>Id_item = ''i1'', ListId = ''A'', Name = ''n'', Description = None, State = ''done'',
      DueDate = Some 3600000000000, CompletedDate = Some 1800000000000,
      CreatedDate = 100, UpdatedDate = None\<rparr>
     \<lparr>name = ''n'', state = ''done'', dueDate = Some 3672000000000,
      completedDate = Some 1800000000000, description = None\<rparr>) = ''todo''
   \<and> CompletedDate (UpdateListItem_fields 3636000000000 3636000000000 3636000000000
     \<lparr>Id_item = ''i1'', ListId = ''A'', Name = ''n'', Description = None, State = ''done'',
      DueDate = Some 3600000000000, CompletedDate = Some 1800000000000,
      CreatedDate = 100, UpdatedDate = None\<rparr>
     \<lparr>name = ''n'', state = ''done'', dueDate = Some 3672000000000,
      completedDate = Some 1800000000000, description = None\<rparr>) = Some 1800000000000"
  by (simp add: UpdateListItem_fields_def reopen_check_def Let_def TotalHours_ge_1_iff)




section \<open>Properties of the repository and the endpoints\<close>

lemma GetListItemAsync_stored:
  "itemsCollection itemId = Some it \<Longrightarrow>
     GetListItemAsync itemsCollection listId itemId
       = (if ListId it = listId then Inr (Some it) else Inr None)"
  by (simp add: GetListItemAsync_def ReadItemAsync_def)

lemma GetListItemAsync_absent:
  "itemsCollection itemId = None \<Longrightarrow>
     GetListItemAsync itemsCollection listId itemId = Inl CosmosNotFound"
  by (simp add: GetListItemAsync_def ReadItemAsync_def)

lemma GetListItemAsync_Some_iff:
  "GetListItemAsync itemsCollection listId itemId = Inr (Some it)
     \<longleftrightarrow> itemsCollection itemId = Some it \<and> ListId it = listId"
  by (cases "itemsCollection itemId")
     (auto simp: GetListItemAsync_stored GetListItemAsync_absent)

lemma UpdateListItem_fields_keeps_ids:
  "Id_item (UpdateListItem_fields t_upd now t_done existingItem item) = Id_item existingItem
   \<and> ListId (UpdateListItem_fields t_upd now t_done existingItem item) = ListId existingItem"
  by (simp add: UpdateListItem_fields_def Let_def)

lemma UpdateListItem_not_found:
  "GetListItemAsync repository listId itemId = Inr None \<Longrightarrow>
     UpdateListItem t_upd now t_done repository listId itemId item = (Inr NotFound, repository)"
  by (simp add: UpdateListItem_def)

lemma UpdateListItem_found:
  assumes "GetListItemAsync repository listId itemId = Inr (Some existingItem)"
    and "Id_item existingItem = itemId"
  shows "UpdateListItem t_upd now t_done repository listId itemId item
    = (Inr (Ok (UpdateListItem_fields t_upd now t_done existingItem item)),
       repository(itemId \<mapsto> UpdateListItem_fields t_upd now t_done existingItem item))"
proof -
  from assms(1) have "repository itemId = Some existingItem"
    by (simp add: GetListItemAsync_Some_iff)
  then have "UpdateListItemAsync repository (UpdateListItem_fields t_upd now t_done existingItem item)
      = Inr (repository(itemId \<mapsto> UpdateListItem_fields t_upd now t_done existingItem item))"
    using assms(2)
    by (simp add: UpdateListItemAsync_def ReplaceItemAsync_def UpdateListItem_fields_keeps_ids)
  with assms(1) show ?thesis
    by (simp add: UpdateListItem_def Let_def)
qed

text \<open>
  C6. Items are isolated by list: when the item stored under \<open>itemId\<close> belongs to a list
  other than the requested one, \<^verbatim>\<open>GetListItemAsync\<close> returns null although the item
  exists; it returns an item exactly when that item is stored under \<open>itemId\<close> and its
  list is the requested one.
\<close>

theorem getItem_is_scoped_to_its_list:
  "(itemsCollection itemId = Some stored \<and> ListId stored \<noteq> listId \<longrightarrow>
      GetListItemAsync itemsCollection listId itemId = Inr None)
   \<and> (GetListItemAsync itemsCollection listId itemId = Inr (Some it)
      \<longleftrightarrow> itemsCollection itemId = Some it \<and> ListId it = listId)"
  using GetListItemAsync_Some_iff [of itemsCollection listId itemId it]
  by (auto simp: GetListItemAsync_stored)

theorem getItem_is_scoped_to_its_list_witness:
  "GetListItemAsync
     [''x'' \<mapsto> \<lparr>Id_item = ''x'', ListId = ''B'', Name = ''n'', Description = None,
        State = ''todo'', DueDate = None, CompletedDate = None, CreatedDate = 100,
        UpdatedDate = None\<rparr>] ''A'' ''x'' = Inr None
   \<and> GetListItemAsync
     [''x'' \<mapsto> \<lparr>Id_item = ''x'', ListId = ''B'', Name = ''n'', Description = None,
        State = ''todo'', DueDate = None, CompletedDate = None, CreatedDate = 100,
        UpdatedDate = None\<rparr>] ''B'' ''x''
     = Inr (Some \<lparr>Id_item = ''x'', ListId = ''B'', Name = ''n'', Description = None,
        State = ''todo'', DueDate = None, CompletedDate = None, CreatedDate = 100,
        UpdatedDate = None\<rparr>)"
  using getItem_is_scoped_to_its_list [where
      itemsCollection = "[''x'' \<mapsto> \<lparr>Id_item = ''x'', ListId = ''B'', Name = ''n'',
        Description = None, State = ''todo'', DueDate = None, CompletedDate = None,
        CreatedDate = 100, UpdatedDate = None\<rparr>]"
      and itemId = "''x''" and listId = "''A''"
      and stored = "\<lparr>Id_item = ''x'', ListId = ''B'', Name = ''n'', Description = None,
        State = ''todo'', DueDate = None, CompletedDate = None, CreatedDate = 100,
        UpdatedDate = None\<rparr>"]
    getItem_is_scoped_to_its_list [where
      itemsCollection = "[''x'' \<mapsto> \<lparr>Id_item = ''x'', ListId = ''B'', Name = ''n'',
        Description = None, State = ''todo'', DueDate = None, CompletedDate = None,
        CreatedDate = 100, UpdatedDate = None\<rparr>]"
      and itemId = "''x''" and listId = "''B''"
      and it = "\<lparr>Id_item = ''x'', ListId = ''B'', Name = ''n'', Description = None,
        State = ''todo'', DueDate = None, CompletedDate = None, CreatedDate = 100,
        UpdatedDate = None\<rparr>"]
  by simp

lemma DeleteListItem_not_found:
  "GetListItemAsync repository listId itemId = Inr None \<Longrightarrow>
     DeleteListItem repository listId itemId = (Inr NotFound, repository)"
  by (simp add: DeleteListItem_def)

lemma DeleteListItem_throws:
  "GetListItemAsync repository listId itemId = Inl e \<Longrightarrow>
     DeleteListItem repository listId itemId = (Inl e, repository)"
  by (simp add: DeleteListItem_def)

lemma DeleteListItem_found:
  assumes "GetListItemAsync repository listId itemId = Inr (Some it)"
  shows "DeleteListItem repository listId itemId = (Inr NoContent, repository(itemId := None))"
proof -
  from assms have "repository itemId = Some it"
    by (simp add: GetListItemAsync_Some_iff)
  then have "DeleteListItemAsync repository listId itemId = Inr (repository(itemId := None))"
    by (simp add: DeleteListItemAsync_def DeleteItemAsync_def)
  with assms show ?thesis
    by (simp add: DeleteListItem_def)
qed

text \<open>
  \<^verbatim>\<open>DeleteListItem\<close> deletes only behind the list-scoped lookup. When the lookup
  returns null, in particular when the item stored under \<open>itemId\<close> belongs to another
  list, the endpoint returns NotFound and the container is unchanged. Any outcome other
  than NoContent leaves the container unchanged, and the container changes only if the
  lookup returned the item; the item is then removed.
\<close>

lemma DeleteListItem_only_after_scoped_lookup:
  "(GetListItemAsync repository listId itemId = Inr None \<longrightarrow>
      DeleteListItem repository listId itemId = (Inr NotFound, repository))
   \<and> (repository itemId = Some stored \<and> ListId stored \<noteq> listId \<longrightarrow>
      DeleteListItem repository listId itemId = (Inr NotFound, repository))
   \<and> (fst (DeleteListItem repository listId itemId) \<noteq> Inr NoContent \<longrightarrow>
      snd (DeleteListItem repository listId itemId) = repository)
   \<and> (snd (DeleteListItem repository listId itemId) \<noteq> repository \<longrightarrow>
      (\<exists>it. GetListItemAsync repository listId itemId = Inr (Some it)
         \<and> DeleteListItem repository listId itemId = (Inr NoContent, repository(itemId := None))))"
proof (intro conjI impI)
  assume "GetListItemAsync repository listId itemId = Inr None"
  then show "DeleteListItem repository listId itemId = (Inr NotFound, repository)"
    by (rule DeleteListItem_not_found)
next
  assume "repository itemId = Some stored \<and> ListId stored \<noteq> listId"
  then have "GetListItemAsync repository listId itemId = Inr None"
    by (simp add: GetListItemAsync_stored)
  then show "DeleteListItem repository listId itemId = (Inr NotFound, repository)"
    by (rule DeleteListItem_not_found)
next
  assume "fst (DeleteListItem repository listId itemId) \<noteq> Inr NoContent"
  then show "snd (DeleteListItem repository listId itemId) = repository"
    by (auto simp: DeleteListItem_def split: sum.splits option.splits)
next
  assume changed: "snd (DeleteListItem repository listId itemId) \<noteq> repository"
  show "\<exists>it. GetListItemAsync repository listId itemId = Inr (Some it)
         \<and> DeleteListItem repository listId itemId = (Inr NoContent, repository(itemId := None))"
  proof (cases "GetListItemAsync repository listId itemId")
    case (Inl e)
    with changed show ?thesis by (simp add: DeleteListItem_throws)
  next
    case (Inr found)
    show ?thesis
    proof (cases found)
      case None
      with Inr changed show ?thesis by (simp add: DeleteListItem_not_found)
    next
      case (Some it)
      with Inr show ?thesis by (simp add: DeleteListItem_found)
    qed
  qed
qed

lemma DeleteListItem_other_list_and_own_list:
  "DeleteListItem
     [''x'' \<mapsto> \<lparr>Id_item = ''x'', ListId = ''B'', Name = ''n'', Description = None,
        State = ''todo'', DueDate = None, CompletedDate = None, CreatedDate = 100,
        UpdatedDate = None\<rparr>] ''A'' ''x''
   = (Inr NotFound,
     [''x'' \<mapsto> \<lparr>Id_item = ''x'', ListId = ''B'', Name = ''n'', Description = None,
        State = ''todo'', DueDate = None, CompletedDate = None, CreatedDate = 100,
        UpdatedDate = None\<rparr>])
   \<and> DeleteListItem
     [''x'' \<mapsto> \<lparr>Id_item = ''x'', ListId = ''B'', Name = ''n'', Description = None,
        State = ''todo'', DueDate = None, CompletedDate = None, CreatedDate = 100,
        UpdatedDate = None\<rparr>] ''B'' ''x''
   = (Inr NoContent, Map.empty)"
proof -
  let ?it = "\<lparr>Id_item = ''x'', ListId = ''B'', Name = ''n'', Description = None,
        State = ''todo'', DueDate = None, CompletedDate = None, CreatedDate = 100,
        UpdatedDate = None\<rparr>"
  have other_list: "DeleteListItem [''x'' \<mapsto> ?it] ''A'' ''x'' = (Inr NotFound, [''x'' \<mapsto> ?it])"
    using DeleteListItem_only_after_scoped_lookup [where repository = "[''x'' \<mapsto> ?it]"
        and itemId = "''x''" and listId = "''A''" and stored = ?it]
    by simp
  have "[''x'' \<mapsto> ?it] ''x'' \<noteq> Map.empty ''x''"
    by simp
  then have "[''x'' \<mapsto> ?it] \<noteq> Map.empty"
    by metis
  moreover have "snd (DeleteListItem [''x'' \<mapsto> ?it] ''B'' ''x'') = Map.empty"
    by (simp add: DeleteListItem_def GetListItemAsync_def ReadItemAsync_def
        DeleteListItemAsync_def DeleteItemAsync_def)
  ultimately have changed: "snd (DeleteListItem [''x'' \<mapsto> ?it] ''B'' ''x'') \<noteq> [''x'' \<mapsto> ?it]"
    by (simp only:) (rule not_sym)
  have "\<exists>it. GetListItemAsync [''x'' \<mapsto> ?it] ''B'' ''x'' = Inr (Some it)
      \<and> DeleteListItem [''x'' \<mapsto> ?it] ''B'' ''x''
        = (Inr NoContent, [''x'' \<mapsto> ?it](''x'' := None))"
    using changed DeleteListItem_only_after_scoped_lookup [where repository = "[''x'' \<mapsto> ?it]"
        and itemId = "''x''" and listId = "''B''" and stored = ?it]
    by blast
  then have own_list: "DeleteListItem [''x'' \<mapsto> ?it] ''B'' ''x'' = (Inr NoContent, Map.empty)"
    by simp
  from other_list own_list show ?thesis
    by simp
qed

text \<open>
  C10. The endpoint answers a failed lookup with NotFound only when the lookup returns
  null. For an id that is not stored the read throws, \<^verbatim>\<open>GetListItemAsync\<close> lets the
  exception pass, and the test \<^verbatim>\<open>== null\<close> of \<^verbatim>\<open>DeleteListItem\<close> is never reached:
  the outcome is the store's exception, not NotFound. Here item \<^verbatim>\<open>x\<close> of list
  \<^verbatim>\<open>A\<close> is deleted from a container that holds only item \<^verbatim>\<open>y\<close>; nothing is
  deleted.
\<close>

theorem deleteItem_absent_id_throws:
  "GetListItemAsync
     [''y'' \<mapsto> \<lparr>Id_item = ''y'', ListId = ''A'', Name = ''n'', Description = None,
        State = ''todo'', DueDate = None, CompletedDate = None, CreatedDate = 100,
        UpdatedDate = None\<rparr>] ''A'' ''x'' = Inl CosmosNotFound
   \<and> DeleteListItem
     [''y'' \<mapsto> \<lparr>Id_item = ''y'', ListId = ''A'', Name = ''n'', Description = None,
        State = ''todo'', DueDate = None, CompletedDate = None, CreatedDate = 100,
        UpdatedDate = None\<rparr>] ''A'' ''x''
     = (Inl CosmosNotFound,
        [''y'' \<mapsto> \<lparr>Id_item = ''y'', ListId = ''A'', Name = ''n'', Description = None,
        State = ''todo'', DueDate = None, CompletedDate = None, CreatedDate = 100,
        UpdatedDate = None\<rparr>])"
  by (simp add: DeleteListItem_def GetListItemAsync_def ReadItemAsync_def)

section \<open>Properties of pagination\<close>

lemma add_page_append: "add_page items page = items @ page"
  by (induction page arbitrary: items) simp_all

lemma read_all_concat: "read_all iterator items = items @ concat iterator"
  by (induction iterator arbitrary: items) (simp_all add: add_page_append)

lemma ToListAsync_eq:
  assumes "concat (ToFeedIterator
      (case batchSize of Some b \<Rightarrow> Take (case skip of Some s \<Rightarrow> Skip queryable s | None \<Rightarrow> queryable) b
       | None \<Rightarrow> (case skip of Some s \<Rightarrow> Skip queryable s | None \<Rightarrow> queryable)))
    = (case batchSize of Some b \<Rightarrow> Take (case skip of Some s \<Rightarrow> Skip queryable s | None \<Rightarrow> queryable) b
       | None \<Rightarrow> (case skip of Some s \<Rightarrow> Skip queryable s | None \<Rightarrow> queryable))"
  shows "ToListAsync ToFeedIterator queryable skip batchSize
    = (case batchSize of Some b \<Rightarrow> Take (case skip of Some s \<Rightarrow> Skip queryable s | None \<Rightarrow> queryable) b
       | None \<Rightarrow> (case skip of Some s \<Rightarrow> Skip queryable s | None \<Rightarrow> queryable))"
  using assms by (simp add: ToListAsync_def Let_def read_all_concat)

lemma GetListItemsAsync_eq:
  assumes "\<And>q. concat (ToFeedIterator q) = q"
  shows "GetListItemsAsync ToFeedIterator stored listId (Some s) (Some b)
    = take (nat b) (drop (nat s) (filter (\<lambda>i. ListId i = listId) stored))"
  by (simp add: GetListItemsAsync_def ToListAsync_eq assms Skip_def Take_def)

text \<open>
  C7. Pagination applies skip before limit. Provided the feed iterator delivers the
  query's results in order, whatever the pages, \<^verbatim>\<open>ToListAsync\<close> with skip \<open>s\<close> and
  batch size \<open>b\<close> (neither negative) returns the elements at positions \<open>s\<close> to
  \<open>s + b - 1\<close> of the underlying sequence, as far as they exist; without skip nothing
  is dropped from the front, without batch size nothing is cut off, and without both the
  whole sequence is returned.
\<close>

theorem pagination_skip_then_limit:
  assumes pages: "\<And>q. concat (ToFeedIterator q) = q"
    and nonneg: "0 \<le> s" "0 \<le> b"
  shows "ToListAsync ToFeedIterator queryable (Some s) (Some b) = take (nat b) (drop (nat s) queryable)
    \<and> length (ToListAsync ToFeedIterator queryable (Some s) (Some b))
        = min (nat b) (length queryable - nat s)
    \<and> (\<forall>i < length (ToListAsync ToFeedIterator queryable (Some s) (Some b)).
          ToListAsync ToFeedIterator queryable (Some s) (Some b) ! i = queryable ! (nat s + i))
    \<and> ToListAsync ToFeedIterator queryable None (Some b) = take (nat b) queryable
    \<and> ToListAsync ToFeedIterator queryable (Some s) None = drop (nat s) queryable
    \<and> ToListAsync ToFeedIterator queryable None None = queryable"
proof -
  have both: "ToListAsync ToFeedIterator queryable (Some s) (Some b) = take (nat b) (drop (nat s) queryable)"
    by (simp add: ToListAsync_eq pages Skip_def Take_def)
  have only_limit: "ToListAsync ToFeedIterator queryable None (Some b) = take (nat b) queryable"
    by (simp add: ToListAsync_eq pages Take_def)
  have only_skip: "ToListAsync ToFeedIterator queryable (Some s) None = drop (nat s) queryable"
    by (simp add: ToListAsync_eq pages Skip_def)
  have neither: "ToListAsync ToFeedIterator queryable None None = queryable"
    by (simp add: ToListAsync_eq pages)
  have len: "length (take (nat b) (drop (nat s) queryable)) = min (nat b) (length queryable - nat s)"
    by simp
  have nth: "\<forall>i < length (take (nat b) (drop (nat s) queryable)).
      take (nat b) (drop (nat s) queryable) ! i = queryable ! (nat s + i)"
  proof (intro allI impI)
    fix i
    assume i: "i < length (take (nat b) (drop (nat s) queryable))"
    then have "i < length queryable - nat s" and "i < nat b"
      by simp_all
    then have "nat s \<le> length queryable" and "i < nat b"
      by arith+
    then show "take (nat b) (drop (nat s) queryable) ! i = queryable ! (nat s + i)"
      by simp
  qed
  show ?thesis
    unfolding both only_limit only_skip neither using len nth by blast
qed

theorem pagination_skip_then_limit_witness:
  "ToListAsync (\<lambda>q. [take 2 q, [], drop 2 q]) [0, 1, 2, 3, 4, 5, 6, 7, 8, 9 :: nat] (Some 2) (Some 3)
     = [2, 3, 4]
   \<and> ToListAsync (\<lambda>q. [take 2 q, [], drop 2 q]) [0, 1, 2, 3, 4, 5, 6, 7, 8, 9 :: nat] None None
     = [0, 1, 2, 3, 4, 5, 6, 7, 8, 9]"
proof -
  have pages: "\<And>q :: nat list. concat ((\<lambda>q. [take 2 q, [], drop 2 q]) q) = q"
    by simp
  have nonneg: "(0::int) \<le> 2" "(0::int) \<le> 3"
    by simp_all
  show ?thesis
    using pagination_skip_then_limit [of "\<lambda>q. [take 2 q, [], drop 2 q]" 2 3
        "[0, 1, 2, 3, 4, 5, 6, 7, 8, 9 :: nat]", OF pages nonneg]
    by simp
qed

section \<open>Properties of the web client\<close>

text \<open>
  C9. Every item the detail pane submits has a completion date exactly when its state
  is Done: with the state Done it carries the item's prior completion date or, if there
  is none, the current time; with any other state it carries none.
\<close>

theorem saved_item_completedDate_iff_Done:
  assumes "saveTodoItem combine now1 now2 props_item st = Some todoItem"
  shows "(completedDate_ts todoItem \<noteq> None \<longleftrightarrow> state_ts todoItem = Done)
    \<and> state_ts todoItem = state_s st
    \<and> (state_s st = Done \<longrightarrow>
         (\<exists>item. props_item = Some item
            \<and> completedDate_ts todoItem
              = Some (case completedDate_ts item of Some c \<Rightarrow> c | None \<Rightarrow> now1)))
    \<and> (state_s st \<noteq> Done \<longrightarrow> completedDate_ts todoItem = None)"
proof (cases props_item)
  case None
  with assms show ?thesis
    by (simp add: saveTodoItem_def)
next
  case (Some item)
  show ?thesis
  proof (cases "id_ts item")
    case None
    with Some assms show ?thesis
      by (simp add: saveTodoItem_def)
  next
    case (Some i)
    with \<open>props_item = Some item\<close> assms show ?thesis
      by (auto simp: saveTodoItem_def Let_def split: if_splits)
  qed
qed

theorem saved_item_completedDate_iff_Done_witness:
  "completedDate_ts (the (saveTodoItem (\<lambda>d t. d) 9000 9001
      (Some \<lparr>id_ts = Some ''x'', listId_ts = ''A'', name_ts = ''n'', description_ts = None,
         state_ts = InProgress, dueDate_ts = None, completedDate_ts = None,
         createdDate_ts = Some 100, updatedDate_ts = None\<rparr>)
      \<lparr>name_s = ''n'', description_s = None, dueDate_s = None, dueTime_s = [],
       state_s = Done\<rparr>)) = Some 9000"
proof -
  let ?item = "\<lparr>id_ts = Some ''x'', listId_ts = ''A'', name_ts = ''n'', description_ts = None,
         state_ts = InProgress, dueDate_ts = None, completedDate_ts = None,
         createdDate_ts = Some 100, updatedDate_ts = None\<rparr>"
  let ?st = "\<lparr>name_s = ''n'', description_s = None, dueDate_s = None, dueTime_s = [],
       state_s = Done\<rparr>"
  have "\<exists>t. saveTodoItem (\<lambda>d t. d) 9000 9001 (Some ?item) ?st = Some t"
    by (simp add: saveTodoItem_def)
  then obtain t where saved: "saveTodoItem (\<lambda>d t. d) 9000 9001 (Some ?item) ?st = Some t"
    by blast
  from saved_item_completedDate_iff_Done [OF saved]
  have "completedDate_ts t = Some 9000"
    by simp
  with saved show ?thesis
    by simp
qed

lemma string_of_int_0: "string_of_int 0 = ''0''"
  by (simp add: string_of_int_def string_of_nat.simps)

text \<open>
  C5 as stated fails at its boundary: with the due date, \<^verbatim>\<open>new Date()\<close> and
  \<^verbatim>\<open>Date.now()\<close> all at the same instant (and a time zone that shifts nothing), the
  due date is not past and the cell shows the remaining time, not \<^verbatim>\<open>Due!\<close>.
\<close>

theorem due_exactly_now_counterexample:
  "countdownText (renderItemColumn_countdown (\<lambda>date tz. date)
      (\<lambda>later earlier. trunc_quot (later - earlier) 86400000) None ''UTC'' 5000 5000
      \<lparr>state_d = Todo, originalDueDate = Some 5000\<rparr>) = ''0d 0h 0m 0s''
   \<and> countdownText (renderItemColumn_countdown (\<lambda>date tz. date)
      (\<lambda>later earlier. trunc_quot (later - earlier) 86400000) None ''UTC'' 5000 5000
      \<lparr>state_d = Todo, originalDueDate = Some 5000\<rparr>) \<noteq> ''Due!''"
  by (simp add: renderItemColumn_countdown_def Let_def isPast_def differenceInMinutes_def
      differenceInHours_def differenceInSeconds_def trunc_quot_def js_rem_def
      locationInfo_of_def string_of_int_0)

text \<open>
  C5, amended. For every item that is not Done and has a due date, when the time-zone
  conversion leaves the current time where it is (the user's zone is the system's): if
  the due date converted to the zone is strictly before the current time converted to
  the zone, the text is \<^verbatim>\<open>Due!\<close> in the colour of overdue items; if it is equal to
  the current time or after it, the text is not \<^verbatim>\<open>Due!\<close>.
\<close>

theorem overdue_iff_strictly_past:
  assumes "state_d item \<noteq> Done" and "originalDueDate item = Some due"
    and "toZonedTime dateNow (userTimezone_of userLocation currentTimezone) = dateNow"
  shows "(toZonedTime due (userTimezone_of userLocation currentTimezone)
          < toZonedTime dateNow (userTimezone_of userLocation currentTimezone) \<longrightarrow>
        countdownText (renderItemColumn_countdown toZonedTime differenceInDays userLocation
            currentTimezone now dateNow item) = ''Due!''
        \<and> countdownColor (renderItemColumn_countdown toZonedTime differenceInDays userLocation
            currentTimezone now dateNow item) = ''#d13438'')
    \<and> (toZonedTime dateNow (userTimezone_of userLocation currentTimezone)
          \<le> toZonedTime due (userTimezone_of userLocation currentTimezone) \<longrightarrow>
        countdownText (renderItemColumn_countdown toZonedTime differenceInDays userLocation
            currentTimezone now dateNow item) \<noteq> ''Due!'')"
proof (intro conjI impI)
  assume "toZonedTime due (userTimezone_of userLocation currentTimezone)
    < toZonedTime dateNow (userTimezone_of userLocation currentTimezone)"
  with assms(3) have past: "isPast dateNow (toZonedTime due (userTimezone_of userLocation currentTimezone))"
    by (simp add: isPast_def)
  with assms(1,2) show "countdownText (renderItemColumn_countdown toZonedTime differenceInDays
      userLocation currentTimezone now dateNow item) = ''Due!''"
    by (simp add: renderItemColumn_countdown_def Let_def)
  from past assms(1,2)
  show "countdownColor (renderItemColumn_countdown toZonedTime differenceInDays
      userLocation currentTimezone now dateNow item) = ''#d13438''"
    by (simp add: renderItemColumn_countdown_def Let_def)
next
  assume "toZonedTime dateNow (userTimezone_of userLocation currentTimezone)
    \<le> toZonedTime due (userTimezone_of userLocation currentTimezone)"
  with assms(3) have not_past:
    "\<not> isPast dateNow (toZonedTime due (userTimezone_of userLocation currentTimezone))"
    by (simp add: isPast_def)
  have "CHR ''d'' \<in> set (countdownText (renderItemColumn_countdown toZonedTime differenceInDays
      userLocation currentTimezone now dateNow item))"
    using assms(1,2) not_past
    by (simp add: renderItemColumn_countdown_def Let_def)
  moreover have "CHR ''d'' \<notin> set ''Due!''"
    by simp
  ultimately show "countdownText (renderItemColumn_countdown toZonedTime differenceInDays
      userLocation currentTimezone now dateNow item) \<noteq> ''Due!''"
    by metis
qed

theorem overdue_iff_strictly_past_witness:
  "countdownText (renderItemColumn_countdown (\<lambda>date tz. date)
      (\<lambda>later earlier. trunc_quot (later - earlier) 86400000) None ''UTC'' 5000 5001
      \<lparr>state_d = Todo, originalDueDate = Some 5000\<rparr>) = ''Due!''
   \<and> countdownColor (renderItemColumn_countdown (\<lambda>date tz. date)
      (\<lambda>later earlier. trunc_quot (later - earlier) 86400000) None ''UTC'' 5000 5001
      \<lparr>state_d = Todo, originalDueDate = Some 5000\<rparr>) = ''#d13438''
   \<and> countdownText (renderItemColumn_countdown (\<lambda>date tz. date)
      (\<lambda>later earlier. trunc_quot (later - earlier) 86400000) None ''UTC'' 5000 5000
      \<lparr>state_d = InProgress, originalDueDate = Some 5000\<rparr>) \<noteq> ''Due!''"
  using overdue_iff_strictly_past [where item = "\<lparr>state_d = Todo, originalDueDate = Some 5000\<rparr>"
      and due = 5000 and toZonedTime = "\<lambda>date tz. date" and dateNow = 5001 and now = 5000
      and userLocation = None and currentTimezone = "''UTC''"
      and differenceInDays = "\<lambda>later earlier. trunc_quot (later - earlier) 86400000"]
    overdue_iff_strictly_past [where item = "\<lparr>state_d = InProgress, originalDueDate = Some 5000\<rparr>"
      and due = 5000 and toZonedTime = "\<lambda>date tz. date" and dateNow = 5000 and now = 5000
      and userLocation = None and currentTimezone = "''UTC''"
      and differenceInDays = "\<lambda>later earlier. trunc_quot (later - earlier) 86400000"]
  by simp

end
